theory Spec2Isabelle
  imports Complex_Main "HOL-Library.Sublist"
begin

section \<open>Python strings\<close>

text \<open>
  A Python \<open>str\<close> is modelled as a list of \<open>char\<close>, each \<open>char\<close> standing for the
  code point of the same number (0 to 255). On these code points the functions below are
  the ones of Python 3: \<open>str.isspace\<close> (which is also what \<open>str.strip()\<close> removes and what
  the regular expression \<open>\s\<close> matches on a \<open>str\<close>), \<open>str.lower\<close>, \<open>str.startswith\<close>,
  the substring test \<open>a in b\<close> and \<open>str.replace\<close>.
\<close>

definition is_space :: "char \<Rightarrow> bool" where
  "is_space c = (let n = (of_char c :: nat) in
     (9 \<le> n \<and> n \<le> 13) \<or> (28 \<le> n \<and> n \<le> 32) \<or> n = 133 \<or> n = 160)"

definition lower_char :: "char \<Rightarrow> char" where
  "lower_char c = (let n = (of_char c :: nat) in
     if (65 \<le> n \<and> n \<le> 90) \<or> (192 \<le> n \<and> n \<le> 222 \<and> n \<noteq> 215)
     then Char (digit0 c) (digit1 c) (digit2 c) (digit3 c) (digit4 c) True (digit6 c) (digit7 c)
     else c)"

definition py_lower :: "string \<Rightarrow> string" where
  "py_lower s = map lower_char s"

definition py_lstrip :: "string \<Rightarrow> string" where
  "py_lstrip s = dropWhile is_space s"

definition py_rstrip :: "string \<Rightarrow> string" where
  "py_rstrip s = rev (dropWhile is_space (rev s))"

definition py_strip :: "string \<Rightarrow> string" where
  "py_strip s = py_rstrip (py_lstrip s)"

definition startswith :: "string \<Rightarrow> string \<Rightarrow> bool" where
  "startswith s p = (take (length p) s = p)"

definition endswith :: "string \<Rightarrow> string \<Rightarrow> bool" where
  "endswith s p = (length p \<le> length s \<and> drop (length s - length p) s = p)"

text \<open>\<open>py_in sub s\<close> is Python's \<open>sub in s\<close> on strings.\<close>

fun py_in :: "string \<Rightarrow> string \<Rightarrow> bool" where
  "py_in sub [] = (sub = [])"
| "py_in sub (c # cs) = (startswith (c # cs) sub \<or> py_in sub cs)"

text \<open>
  \<open>str.replace(old, new)\<close>: the occurrences of \<open>old\<close> are found from left to right and do
  not overlap. With an empty \<open>old\<close> Python puts \<open>new\<close> before every character and at the end.
\<close>

function replace_scan :: "string \<Rightarrow> string \<Rightarrow> string \<Rightarrow> string" where
  "replace_scan old new [] = []"
| "replace_scan old new (c # cs) =
     (if old \<noteq> [] \<and> startswith (c # cs) old
      then new @ replace_scan old new (drop (length old) (c # cs))
      else c # replace_scan old new cs)"
  by pat_completeness auto
termination
  by (relation "measure (\<lambda>(old, new, s). length s)") (auto simp: neq_Nil_conv)

definition py_replace :: "string \<Rightarrow> string \<Rightarrow> string \<Rightarrow> string" where
  "py_replace s old new =
     (if old = [] then new @ concat (map (\<lambda>c. c # new) s) else replace_scan old new s)"

section \<open>The two regular-expression substitutions of the normalizer\<close>

text \<open>
  \<open>re.compile(re.escape(flag), re.IGNORECASE).sub('', s)\<close> for a lower-case literal
  \<open>flag\<close>: every match, found from left to right without overlap, is deleted. A position
  matches when the next \<open>len(flag)\<close> characters, lowercased, are the flag.
\<close>

function sub_ignorecase :: "string \<Rightarrow> string \<Rightarrow> string" where
  "sub_ignorecase flag [] = []"
| "sub_ignorecase flag (c # cs) =
     (if flag \<noteq> [] \<and> startswith (py_lower (c # cs)) flag
      then sub_ignorecase flag (drop (length flag) (c # cs))
      else c # sub_ignorecase flag cs)"
  by pat_completeness auto
termination
  by (relation "measure (\<lambda>(flag, s). length s)") (auto simp: neq_Nil_conv)

text \<open>\<open>re.sub(r'\s+', ' ', s)\<close>: every maximal run of whitespace becomes one space.\<close>

function sub_whitespace :: "string \<Rightarrow> string" where
  "sub_whitespace [] = []"
| "sub_whitespace (c # cs) =
     (if is_space c then CHR '' '' # sub_whitespace (dropWhile is_space cs)
      else c # sub_whitespace cs)"
  by pat_completeness auto
termination
  by (relation "measure length") (auto simp: length_dropWhile_le less_Suc_eq_le)

section \<open>Constants of the module\<close>

definition PICKLEBOT_SIGNATURE :: string where
  "PICKLEBOT_SIGNATURE = ''SMAD Picklebot''"

definition COMMAND_PREFIXES :: "string list" where
  "COMMAND_PREFIXES = [''/pb '', ''/picklebot '']"

definition DRY_RUN_FLAGS :: "string list" where
  "DRY_RUN_FLAGS = [''--dry-run'', ''--dry'', ''-n'', ''dry run'', ''dryrun'']"

section \<open>extract_dry_run_flag\<close>

text \<open>
  The \<open>for flag in DRY_RUN_FLAGS\<close> loop, which returns at the first flag found in the
  lowercased text, and the \<open>return command_text, False\<close> after it.
\<close>

fun extract_loop :: "string list \<Rightarrow> string \<Rightarrow> string \<Rightarrow> string \<times> bool" where
  "extract_loop [] text_lower command_text = (command_text, False)"
| "extract_loop (flag # flags) text_lower command_text =
     (if py_in flag text_lower
      then (let cleaned = py_strip (sub_ignorecase flag command_text);
                cleaned = py_strip (sub_whitespace cleaned)
            in (cleaned, True))
      else extract_loop flags text_lower command_text)"

definition extract_dry_run_flag :: "string \<Rightarrow> string \<times> bool" where
  "extract_dry_run_flag command_text =
     (let text_lower = py_lower command_text
      in extract_loop DRY_RUN_FLAGS text_lower command_text)"

section \<open>JSON values\<close>

text \<open>
  The values that \<open>json.loads\<close> and \<open>request.get_json\<close> return: \<open>None\<close>, a \<open>bool\<close>, an
  \<open>int\<close>, a \<open>float\<close>, a \<open>str\<close>, a \<open>list\<close> or a \<open>dict\<close> with string keys (an association
  list of its items, looked up with \<open>map_of\<close>). The dict literals of the source are values
  of this type too.
\<close>

datatype json =
    JNull
  | JBool bool
  | JInt int
  | JFloat rat
  | JStr string
  | JArr "json list"
  | JObj "(string \<times> json) list"

section \<open>parse_intent_fallback\<close>

text \<open>
  The \<open>for prefix in COMMAND_PREFIXES\<close> loop: the first prefix the text starts with is cut
  off (\<open>text[len(prefix):].strip()\<close>) and the loop ends (\<open>break\<close>).
\<close>

fun remove_prefix_loop :: "string list \<Rightarrow> string \<Rightarrow> string" where
  "remove_prefix_loop [] text = text"
| "remove_prefix_loop (pfx # pfxs) text =
     (if startswith text (py_lower pfx)
      then py_strip (drop (length pfx) text)
      else remove_prefix_loop pfxs text)"

definition parse_intent_fallback :: "string \<Rightarrow> json" where
  "parse_intent_fallback command_text =
     (let text = py_strip (py_lower command_text);
          text = remove_prefix_loop COMMAND_PREFIXES text
      in
      if text \<in> set [''help'', ''?'', ''commands'']
      then JObj [(''intent'', JStr ''help''), (''params'', JObj []),
                 (''confirmation_required'', JBool False)]
      else if text \<in> set [''deadbeats'', ''deadbeat'', ''owes'', ''outstanding'']
      then JObj [(''intent'', JStr ''show_deadbeats''), (''params'', JObj []),
                 (''confirmation_required'', JBool False)]
      else if startswith text ''balance''
      then (let name = py_strip (py_replace text ''balance'' [])
            in JObj [(''intent'', JStr ''show_balances''),
                     (''params'', if name \<noteq> [] then JObj [(''player_name'', JStr name)]
                                  else JObj []),
                     (''confirmation_required'', JBool False)])
      else if startswith text ''book''
      then JObj [(''intent'', JStr ''book_court''), (''params'', JObj [(''raw'', JStr text)]),
                 (''confirmation_required'', JBool True)]
      else if py_in ''poll'' text \<and> py_in ''create'' text
      then JObj [(''intent'', JStr ''create_poll''), (''params'', JObj []),
                 (''confirmation_required'', JBool True)]
      else if py_in ''reminder'' text
      then JObj [(''intent'', JStr ''send_reminders''),
                 (''params'', JObj [(''type'', JStr ''vote'')]),
                 (''confirmation_required'', JBool True)]
      else if text \<in> set [''status'', ''health'']
      then JObj [(''intent'', JStr ''show_status''), (''params'', JObj []),
                 (''confirmation_required'', JBool False)]
      else JObj [(''intent'', JStr ''unknown''), (''params'', JObj [(''raw'', JStr text)]),
                 (''confirmation_required'', JBool False)])"

section \<open>The specification of the normalizer and of the fallback classifier\<close>



text \<open>The taxonomy: the intents that require confirmation.\<close>

definition confirmation_intents :: "string list" where
  "confirmation_intents = [''book_court'', ''create_poll'', ''send_reminders'']"





section \<open>Python operations on JSON values, and the exceptions they raise\<close>

text \<open>
  The exceptions the code can meet. A function of the source that may raise returns
  \<open>exn + 'a\<close> here, \<open>Inl\<close> carrying the exception; \<open>str_exn\<close> is Python's \<open>str(e)\<close>.
\<close>

datatype exn =
    AttributeError string string
  | IndexError string
  | KeyError string
  | TypeError string
  | JSONDecodeError
  | RequestException

definition type_name :: "json \<Rightarrow> string" where
  "type_name v = (case v of
      JNull \<Rightarrow> ''NoneType''
    | JBool b \<Rightarrow> ''bool''
    | JInt i \<Rightarrow> ''int''
    | JFloat f \<Rightarrow> ''float''
    | JStr s \<Rightarrow> ''str''
    | JArr xs \<Rightarrow> ''list''
    | JObj kvs \<Rightarrow> ''dict'')"

definition str_exn :: "exn \<Rightarrow> string" where
  "str_exn e = (case e of
      AttributeError ty attr \<Rightarrow>
        [CHR 0x27] @ ty @ [CHR 0x27] @ '' object has no attribute '' @ [CHR 0x27] @ attr @ [CHR 0x27]
    | IndexError m \<Rightarrow> m
    | KeyError k \<Rightarrow> k
    | TypeError m \<Rightarrow> m
    | JSONDecodeError \<Rightarrow> ''Expecting value''
    | RequestException \<Rightarrow> ''request failed'')"

text \<open>Truth value of an object in \<open>if x\<close>, \<open>not x\<close> and \<open>x or y\<close>.\<close>

definition truthy :: "json \<Rightarrow> bool" where
  "truthy v = (case v of
      JNull \<Rightarrow> False
    | JBool b \<Rightarrow> b
    | JInt i \<Rightarrow> i \<noteq> 0
    | JFloat f \<Rightarrow> f \<noteq> 0
    | JStr s \<Rightarrow> s \<noteq> []
    | JArr xs \<Rightarrow> xs \<noteq> []
    | JObj kvs \<Rightarrow> kvs \<noteq> [])"

definition py_or :: "json \<Rightarrow> json \<Rightarrow> json" where
  "py_or a b = (if truthy a then a else b)"

text \<open>\<open>d.get(key, default)\<close>: only a dict has the method.\<close>

definition py_get :: "json \<Rightarrow> string \<Rightarrow> json \<Rightarrow> exn + json" where
  "py_get d key dflt = (case d of
      JObj kvs \<Rightarrow> Inr (case map_of kvs key of None \<Rightarrow> dflt | Some v \<Rightarrow> v)
    | _ \<Rightarrow> Inl (AttributeError (type_name d) ''get''))"

text \<open>\<open>x[0]\<close>. The keys of a dict that came from JSON are strings, so \<open>0\<close> is never one.\<close>

definition py_index0 :: "json \<Rightarrow> exn + json" where
  "py_index0 x = (case x of
      JArr [] \<Rightarrow> Inl (IndexError ''list index out of range'')
    | JArr (v # vs) \<Rightarrow> Inr v
    | JStr [] \<Rightarrow> Inl (IndexError ''string index out of range'')
    | JStr (c # cs) \<Rightarrow> Inr (JStr [c])
    | JObj kvs \<Rightarrow> Inl (KeyError ''0'')
    | _ \<Rightarrow> Inl (TypeError ([CHR 0x27] @ type_name x @ [CHR 0x27] @ '' object is not subscriptable'')))"

text \<open>A method of \<open>str\<close> called on a value: any other type has no such attribute.\<close>

definition as_str :: "string \<Rightarrow> json \<Rightarrow> exn + string" where
  "as_str attr v = (case v of
      JStr s \<Rightarrow> Inr s
    | _ \<Rightarrow> Inl (AttributeError (type_name v) attr))"

definition bind_exn :: "exn + 'a \<Rightarrow> ('a \<Rightarrow> exn + 'b) \<Rightarrow> exn + 'b" where
  "bind_exn m f = (case m of Inl e \<Rightarrow> Inl e | Inr x \<Rightarrow> f x)"

section \<open>Numbers\<close>

text \<open>
  A Python \<open>float\<close> is modelled as the rational number it denotes. Comparison and sorting
  of finite floats are then exact, and the format \<open>:.2f\<close> is the correctly rounded
  (half to even) decimal with two digits, as CPython prints it. The sum of floats is the
  exact sum here and the rounded one in Python; the two agree whenever the exact sum is a
  float, as for the whole numbers of the examples. \<open>nan\<close>, the infinities and \<open>-0.0\<close> are
  not modelled.
\<close>

definition round_half_even :: "rat \<Rightarrow> int" where
  "round_half_even x =
     (let n = \<lfloor>x\<rfloor>; d = x - of_int n
      in if d < 1 / 2 then n
         else if 1 / 2 < d then n + 1
         else if even n then n else n + 1)"

definition digit_char :: "nat \<Rightarrow> char" where
  "digit_char d = ''0123456789'' ! d"

fun show_nat :: "nat \<Rightarrow> string" where
  "show_nat n = (if n < 10 then [digit_char n] else show_nat (n div 10) @ [digit_char (n mod 10)])"

definition show_int :: "int \<Rightarrow> string" where
  "show_int i = (if i < 0 then ''-'' @ show_nat (nat (- i)) else show_nat (nat i))"

definition format_2f :: "rat \<Rightarrow> string" where
  "format_2f x =
     (let c = nat (round_half_even (\<bar>x\<bar> * 100))
      in (if x < 0 then ''-'' else []) @ show_nat (c div 100) @ ''.''
         @ [digit_char (c div 10 mod 10), digit_char (c mod 10)])"

section \<open>Configuration and the outside world\<close>

text \<open>
  The module reads its configuration from the environment once, when it is loaded.
\<close>

record config =
  GREENAPI_INSTANCE_ID :: string
  GREENAPI_API_TOKEN :: string
  ADMIN_DINKERS_GROUP_ID :: string
  ANTHROPIC_API_KEY :: string
  GITHUB_TOKEN :: string
  SPREADSHEET_ID :: string

text \<open>
  A row of \<open>get_player_balances()\<close>: the name and the balance (positive: the player owes).
\<close>

record player =
  name :: string
  balance :: rat

text \<open>
  What \<open>requests.post\<close> gives back: it raises, or it returns a response with a status
  code whose \<open>.json()\<close> is a value or raises (\<open>None\<close>).
\<close>

datatype http_reply = ConnectionFailed | Replied nat "json option"

text \<open>
  Everything the request handler reads from outside the module:
  \<^item> \<open>claude_reply\<close>: the outcome of the POST to the language-model service for a command
    text (the prompt is a fixed template around that text);
  \<^item> \<open>json_loads\<close>: the standard library's \<open>json.loads\<close>, \<open>None\<close> where it raises;
  \<^item> \<open>py_repr\<close>: the text Python prints for a float, a list or a dict;
  \<^item> \<open>player_balances\<close>: what \<open>get_player_balances()\<close> returns for this request; that
    function catches every exception of the spreadsheet client and returns the empty
    list then;
  \<^item> \<open>timestamp\<close>: \<open>datetime.now(PST).strftime('%m/%d/%y %I:%M %p PST')\<close>;
  \<^item> \<open>greenapi_reply\<close>: the outcome of the POST to the messaging gateway for a URL, a
    chat id and a message.
\<close>

record env =
  claude_reply :: "string \<Rightarrow> http_reply"
  json_loads :: "string \<Rightarrow> json option"
  py_repr :: "json \<Rightarrow> string"
  player_balances :: "player list"
  timestamp :: string
  greenapi_reply :: "string \<Rightarrow> json \<Rightarrow> string \<Rightarrow> http_reply"

text \<open>How an f-string renders a value: \<open>str(v)\<close>.\<close>

definition py_str :: "env \<Rightarrow> json \<Rightarrow> string" where
  "py_str world v = (case v of
      JNull \<Rightarrow> ''None''
    | JBool b \<Rightarrow> (if b then ''True'' else ''False'')
    | JInt i \<Rightarrow> show_int i
    | JStr s \<Rightarrow> s
    | _ \<Rightarrow> py_repr world v)"

section \<open>Command handlers\<close>

definition handle_help :: string where
  "handle_help =
     ''*'' @ PICKLEBOT_SIGNATURE @ '' Commands*\<newline>'' @
     ''\<newline>'' @
     ''*Read-only:*\<newline>'' @
     ''/pb help - Show this message\<newline>'' @
     ''/pb deadbeats - Show players with outstanding balances\<newline>'' @
     ''/pb balance [name] - Show all balances or specific player\<newline>'' @
     ''/pb status - Show system status\<newline>'' @
     ''\<newline>'' @
     ''*Actions (require confirmation):*\<newline>'' @
     ''/pb book <date> <time> [duration] - Book court\<newline>'' @
     ''  Example: /pb book 2/4 7pm 2hrs both courts\<newline>'' @
     ''/pb poll create - Create weekly availability poll\<newline>'' @
     ''/pb reminders - Send vote reminders\<newline>'' @
     ''\<newline>'' @
     ''*Options:*\<newline>'' @
     ''--dry-run - Test command without sending messages\<newline>'' @
     ''  Example: /pb deadbeats --dry-run\<newline>'' @
     ''\<newline>'' @
     ''Tip: You can use natural language!\<newline>'' @
     ''  \"/pb book next Tuesday at 7pm for 2 hours\"\<newline>'' @
     ''  \"/pb who owes money?\"\<newline>''"

text \<open>
  \<open>list.sort(key=lambda x: x['balance'], reverse=True)\<close>: descending by balance, players
  of equal balance keeping their order (the sort is stable, also when reversed).
\<close>

definition sort_by_balance_desc :: "player list \<Rightarrow> player list" where
  "sort_by_balance_desc ps = sort_key (\<lambda>p. - balance p) ps"

definition balance_line :: "player \<Rightarrow> string" where
  "balance_line p = ''- '' @ name p @ '': $'' @ format_2f (balance p) @ ''\<newline>''"

definition handle_deadbeats :: "player list \<Rightarrow> string" where
  "handle_deadbeats players =
     (let deadbeats = filter (\<lambda>p. balance p > 0) players
      in if deadbeats = []
         then ''*'' @ PICKLEBOT_SIGNATURE @ ''*\<newline>\<newline>No outstanding balances! Everyone is paid up.''
         else
           (let deadbeats = sort_by_balance_desc deadbeats;
                total = sum_list (map balance deadbeats);
                message = ''*'' @ PICKLEBOT_SIGNATURE @ '' - Outstanding Balances*\<newline>\<newline>'';
                message = foldl (\<lambda>m p. m @ balance_line p) message deadbeats;
                message = message @ ''\<newline>*Total: $'' @ format_2f total @ ''*''
            in message))"

text \<open>
  \<open>handle_balances(player_name)\<close>. The argument is \<open>params.get('player_name')\<close>, any JSON
  value or \<open>None\<close>; when it is true in the sense of \<open>if player_name\<close>,
  \<open>player_name.lower()\<close> is called on it.
\<close>

definition handle_balances :: "player list \<Rightarrow> json \<Rightarrow> exn + string" where
  "handle_balances players player_name =
     (if truthy player_name
      then bind_exn (as_str ''lower'' player_name) (\<lambda>pn.
        let player_name_lower = py_lower pn;
            matches = filter (\<lambda>p. py_in player_name_lower (py_lower (name p))) players
        in if matches = []
           then Inr (''*'' @ PICKLEBOT_SIGNATURE @ ''*\<newline>\<newline>Player '' @ [CHR 0x27] @ pn @ [CHR 0x27]
                     @ '' not found.'')
           else if length matches = 1
           then (let p = hd matches;
                     status = (if balance p > 0 then ''owes''
                               else if balance p < 0 then ''has credit of''
                               else ''is all paid up'')
                 in if balance p = 0
                    then Inr (''*'' @ PICKLEBOT_SIGNATURE @ ''*\<newline>\<newline>'' @ name p @ '' '' @ status @ ''!'')
                    else Inr (''*'' @ PICKLEBOT_SIGNATURE @ ''*\<newline>\<newline>'' @ name p @ '' '' @ status
                              @ '' $'' @ format_2f \<bar>balance p\<bar>))
           else (let message = ''*'' @ PICKLEBOT_SIGNATURE @ ''*\<newline>\<newline>Multiple matches for ''
                               @ [CHR 0x27] @ pn @ [CHR 0x27] @ '':\<newline>'';
                     message = foldl (\<lambda>m p. m @ balance_line p) message matches
                 in Inr message))
      else
        (let players = sort_by_balance_desc players;
             total = sum_list (map balance (filter (\<lambda>p. balance p > 0) players));
             message = ''*'' @ PICKLEBOT_SIGNATURE @ '' - All Balances*\<newline>\<newline>'';
             message = foldl (\<lambda>m p. if balance p \<noteq> 0 then m @ balance_line p else m)
                         message players;
             message = message @ ''\<newline>*Total Outstanding: $'' @ format_2f total @ ''*''
         in Inr message))"

definition handle_status :: "config \<Rightarrow> env \<Rightarrow> string" where
  "handle_status cfg world =
     ''*'' @ PICKLEBOT_SIGNATURE @ '' Status*\<newline>'' @
     ''\<newline>'' @
     ''Time: '' @ timestamp world @ ''\<newline>'' @
     ''Webhook: Online\<newline>'' @
     ''GREEN-API: '' @ (if GREENAPI_INSTANCE_ID cfg \<noteq> [] then ''Connected'' else ''Not configured'') @ ''\<newline>'' @
     ''Claude API: '' @ (if ANTHROPIC_API_KEY cfg \<noteq> [] then ''Connected'' else ''Not configured'') @ ''\<newline>'' @
     ''GitHub: '' @ (if GITHUB_TOKEN cfg \<noteq> [] then ''Connected'' else ''Not configured'') @ ''\<newline>'' @
     ''Sheets: '' @ (if SPREADSHEET_ID cfg \<noteq> [] then ''Connected'' else ''Not configured'') @ ''\<newline>''"

definition handle_unknown :: "env \<Rightarrow> json \<Rightarrow> string" where
  "handle_unknown world raw_text =
     ''*'' @ PICKLEBOT_SIGNATURE @ ''*\<newline>'' @
     ''\<newline>'' @
     ''I didn'' @ [CHR 0x27] @ ''t understand: \"'' @ py_str world raw_text @ ''\"\<newline>'' @
     ''\<newline>'' @
     ''Type /pb help to see available commands.''"

text \<open>
  \<open>handle_book_court_preview(params)\<close>: the four \<open>params.get\<close> calls need a dict; the
  values found are rendered by the f-string, the defaults are \<open>'unknown'\<close>, \<open>'unknown'\<close>,
  \<open>120\<close> and \<open>'both'\<close>.
\<close>

definition handle_book_court_preview :: "env \<Rightarrow> json \<Rightarrow> exn + string" where
  "handle_book_court_preview world params =
     bind_exn (py_get params ''date'' (JStr ''unknown'')) (\<lambda>date.
     bind_exn (py_get params ''time'' (JStr ''unknown'')) (\<lambda>time.
     bind_exn (py_get params ''duration_minutes'' (JInt 120)) (\<lambda>duration.
     bind_exn (py_get params ''court'' (JStr ''both'')) (\<lambda>court.
       Inr (''*'' @ PICKLEBOT_SIGNATURE @ '' - Book Court*\<newline>'' @
            ''\<newline>'' @
            ''This action requires confirmation.\<newline>'' @
            ''\<newline>'' @
            ''*Details:*\<newline>'' @
            ''- Date: '' @ py_str world date @ ''\<newline>'' @
            ''- Time: '' @ py_str world time @ ''\<newline>'' @
            ''- Duration: '' @ py_str world duration @ '' minutes\<newline>'' @
            ''- Court: '' @ py_str world court @ ''\<newline>'' @
            ''\<newline>'' @
            ''_Confirmation links coming in Phase 2_'')))))"

definition handle_create_poll_preview :: string where
  "handle_create_poll_preview =
     ''*'' @ PICKLEBOT_SIGNATURE @ '' - Create Poll*\<newline>'' @
     ''\<newline>'' @
     ''This action requires confirmation.\<newline>'' @
     ''\<newline>'' @
     ''Will create a weekly availability poll in the SMAD group.\<newline>'' @
     ''\<newline>'' @
     ''_Confirmation links coming in Phase 2_''"

definition handle_send_reminders_preview :: "env \<Rightarrow> json \<Rightarrow> string" where
  "handle_send_reminders_preview world reminder_type =
     ''*'' @ PICKLEBOT_SIGNATURE @ '' - Send Reminders*\<newline>'' @
     ''\<newline>'' @
     ''This action requires confirmation.\<newline>'' @
     ''\<newline>'' @
     ''Will send '' @ py_str world reminder_type @ '' reminders to players who haven'' @ [CHR 0x27]
       @ ''t responded.\<newline>'' @
     ''\<newline>'' @
     ''_Confirmation links coming in Phase 2_''"

section \<open>parse_intent_with_claude\<close>

text \<open>
  The character class \<open>\w\<close> of a \<open>str\<close> pattern: letters, digits and the underscore.
\<close>

definition is_word_char :: "char \<Rightarrow> bool" where
  "is_word_char c = (let n = (of_char c :: nat) in
     (48 \<le> n \<and> n \<le> 57) \<or> (65 \<le> n \<and> n \<le> 90) \<or> n = 95 \<or> (97 \<le> n \<and> n \<le> 122)
     \<or> n = 170 \<or> n = 178 \<or> n = 179 \<or> n = 181 \<or> n = 185 \<or> n = 186
     \<or> (188 \<le> n \<and> n \<le> 190) \<or> (192 \<le> n \<and> n \<le> 214) \<or> (216 \<le> n \<and> n \<le> 246)
     \<or> (248 \<le> n \<and> n \<le> 255))"

text \<open>
  \<open>re.sub(r'^```\w*\n?', '', content)\<close>: an opening fence at the start of the text goes,
  with the word after it and one newline.
\<close>

definition sub_fence_open :: "string \<Rightarrow> string" where
  "sub_fence_open content =
     (if startswith content ''```''
      then (let r = dropWhile is_word_char (drop 3 content)
            in case r of
                 c # cs \<Rightarrow> (if c = CHR ''\<newline>'' then cs else r)
               | [] \<Rightarrow> r)
      else content)"

text \<open>
  \<open>re.sub(r'\n?```$', '', content)\<close>: a closing fence at the end of the text goes, with
  one newline before it; \<open>$\<close> also matches before a newline that ends the text, and that
  newline stays.
\<close>

definition drop_last_newline :: "string \<Rightarrow> string" where
  "drop_last_newline s = (if endswith s ''\<newline>'' then butlast s else s)"

definition sub_fence_close :: "string \<Rightarrow> string" where
  "sub_fence_close content =
     (if endswith content ''```''
      then drop_last_newline (take (length content - 3) content)
      else if endswith content ''```\<newline>''
      then drop_last_newline (take (length content - 4) content) @ ''\<newline>''
      else content)"

text \<open>
  \<open>result.get('content', [{}])[0].get('text', '{}')\<close>: the text of the first content
  block of the reply.
\<close>

definition first_text :: "json \<Rightarrow> exn + json" where
  "first_text result =
     bind_exn (py_get result ''content'' (JArr [JObj []])) (\<lambda>blocks.
     bind_exn (py_index0 blocks) (\<lambda>block.
       py_get block ''text'' (JStr ''{}'')))"

text \<open>
  The clean-up of markdown formatting: a text that starts with a code fence loses the
  opening and the closing fence.
\<close>

definition strip_fence :: "string \<Rightarrow> string" where
  "strip_fence content =
     (if startswith content ''```''
      then sub_fence_close (sub_fence_open content)
      else content)"

text \<open>
  The body of the \<open>try\<close> block: the request, and for status 200 the text of the first
  content block, stripped, freed of a code fence and parsed. Any other status gives the
  fallback result at once.
\<close>

definition claude_request :: "env \<Rightarrow> string \<Rightarrow> exn + json" where
  "claude_request world command_text =
     (case claude_reply world command_text of
        ConnectionFailed \<Rightarrow> Inl RequestException
      | Replied status_code body \<Rightarrow>
          if status_code = 200
          then (case body of
                  None \<Rightarrow> Inl JSONDecodeError
                | Some result \<Rightarrow>
                    bind_exn (first_text result) (\<lambda>txt.
                    bind_exn (as_str ''strip'' txt) (\<lambda>content.
                      let content = py_strip content;
                          content = strip_fence content
                      in case json_loads world content of
                           None \<Rightarrow> Inl JSONDecodeError
                         | Some v \<Rightarrow> Inr v)))
          else Inr (parse_intent_fallback command_text))"

text \<open>
  Without an API key the fallback is used; otherwise \<open>except Exception\<close> turns every
  exception of the \<open>try\<close> block into the fallback result.
\<close>

definition parse_intent_with_claude :: "config \<Rightarrow> env \<Rightarrow> string \<Rightarrow> exn + json" where
  "parse_intent_with_claude cfg world command_text =
     (if ANTHROPIC_API_KEY cfg = []
      then Inr (parse_intent_fallback command_text)
      else (case claude_request world command_text of
              Inl e \<Rightarrow> Inr (parse_intent_fallback command_text)
            | Inr v \<Rightarrow> Inr v))"

section \<open>process_command\<close>

text \<open>
  The dict that \<open>process_command\<close> returns: \<open>message\<close> and \<open>dry_run\<close> always, \<open>intent\<close> from
  the keyword arguments of every call of \<open>build_result\<close>, and \<open>needs_confirmation\<close> only
  where a call passes it (\<open>None\<close>: the key is absent).
\<close>

record result =
  message :: string
  dry_run :: json
  intent :: string
  needs_confirmation :: "bool option"

definition build_result :: "json \<Rightarrow> string \<Rightarrow> string \<Rightarrow> bool option \<Rightarrow> result" where
  "build_result is_dry_run msg intent_kw needs_confirmation_kw =
     \<lparr> message = (if truthy is_dry_run then ''[DRY RUN]\<newline>\<newline>'' @ msg else msg),
       dry_run = is_dry_run,
       intent = intent_kw,
       needs_confirmation = needs_confirmation_kw \<rparr>"

text \<open>
  The chain of \<open>if intent == ...\<close> of \<open>process_command\<close>: the handler of the intent is
  run and \<open>build_result\<close> wraps its message.
\<close>

definition run_handler :: "config \<Rightarrow> env \<Rightarrow> string \<Rightarrow> json \<Rightarrow> json \<Rightarrow> json \<Rightarrow> exn + result" where
  "run_handler cfg world cleaned_command is_dry_run intent_v params =
     (if intent_v = JStr ''help''
      then Inr (build_result is_dry_run handle_help ''help'' None)
      else if intent_v = JStr ''show_deadbeats''
      then Inr (build_result is_dry_run (handle_deadbeats (player_balances world))
                  ''show_deadbeats'' None)
      else if intent_v = JStr ''show_balances''
      then bind_exn (py_get params ''player_name'' JNull) (\<lambda>player_name.
           bind_exn (handle_balances (player_balances world) player_name) (\<lambda>msg.
             Inr (build_result is_dry_run msg ''show_balances'' None)))
      else if intent_v = JStr ''show_status''
      then Inr (build_result is_dry_run (handle_status cfg world) ''show_status'' None)
      else if intent_v = JStr ''book_court''
      then bind_exn (handle_book_court_preview world params) (\<lambda>msg.
             Inr (build_result is_dry_run msg ''book_court'' (Some True)))
      else if intent_v = JStr ''create_poll''
      then Inr (build_result is_dry_run handle_create_poll_preview ''create_poll'' (Some True))
      else if intent_v = JStr ''send_reminders''
      then bind_exn (py_get params ''type'' (JStr ''vote'')) (\<lambda>reminder_type.
             Inr (build_result is_dry_run (handle_send_reminders_preview world reminder_type)
                    ''send_reminders'' (Some True)))
      else bind_exn (py_get params ''raw'' (JStr cleaned_command)) (\<lambda>raw_text.
             Inr (build_result is_dry_run (handle_unknown world raw_text) ''unknown'' None)))"

text \<open>
  The part of \<open>process_command\<close> after the classification: the three \<open>.get\<close> calls on the
  classifier's value, then the chain above. The value read from \<open>confirmation_required\<close>
  is logged and not used again.
\<close>

definition dispatch :: "config \<Rightarrow> env \<Rightarrow> string \<Rightarrow> json \<Rightarrow> json \<Rightarrow> exn + result" where
  "dispatch cfg world cleaned_command is_dry_run intent_data =
     bind_exn (py_get intent_data ''intent'' (JStr ''unknown'')) (\<lambda>intent_v.
     bind_exn (py_get intent_data ''params'' (JObj [])) (\<lambda>params.
     bind_exn (py_get intent_data ''confirmation_required'' (JBool False)) (\<lambda>logged.
       run_handler cfg world cleaned_command is_dry_run intent_v params)))"

text \<open>
  \<open>process_command(command_text, sender_data, dry_run)\<close>. The command text is whatever the
  request held; \<open>extract_dry_run_flag\<close> calls \<open>.lower()\<close> on it first. The sender data are
  not read.
\<close>

definition process_command :: "config \<Rightarrow> env \<Rightarrow> json \<Rightarrow> json \<Rightarrow> json \<Rightarrow> exn + result" where
  "process_command cfg world command_text sender_data dry_run_arg =
     bind_exn (as_str ''lower'' command_text) (\<lambda>text.
       let (cleaned_command, text_has_dry_run) = extract_dry_run_flag text;
           is_dry_run = py_or dry_run_arg (JBool text_has_dry_run)
       in bind_exn (parse_intent_with_claude cfg world cleaned_command) (\<lambda>intent_data.
            dispatch cfg world cleaned_command is_dry_run intent_data))"

section \<open>send_whatsapp_message\<close>

text \<open>A POST to the messaging gateway: the URL, the chat id and the message.\<close>

datatype post = Post string json string

definition greenapi_url :: "config \<Rightarrow> string" where
  "greenapi_url cfg =
     ''https://api.green-api.com/waInstance'' @ GREENAPI_INSTANCE_ID cfg
       @ ''/sendMessage/'' @ GREENAPI_API_TOKEN cfg"

text \<open>The body of the \<open>try\<close> block: the request and the test of the status code.\<close>

definition greenapi_request :: "config \<Rightarrow> env \<Rightarrow> json \<Rightarrow> string \<Rightarrow> exn + bool" where
  "greenapi_request cfg world chat_id msg =
     (case greenapi_reply world (greenapi_url cfg) chat_id msg of
        ConnectionFailed \<Rightarrow> Inl RequestException
      | Replied status_code body \<Rightarrow> Inr (status_code = 200))"

text \<open>
  The result is the boolean returned and the list of requests made. In a dry run and
  without credentials no request is made; \<open>except Exception\<close> turns a failed request into
  \<open>False\<close>.
\<close>

definition send_whatsapp_message ::
    "config \<Rightarrow> env \<Rightarrow> json \<Rightarrow> string \<Rightarrow> json \<Rightarrow> bool \<times> post list" where
  "send_whatsapp_message cfg world chat_id msg dry_run_arg =
     (if truthy dry_run_arg then (True, [])
      else if GREENAPI_INSTANCE_ID cfg = [] \<or> GREENAPI_API_TOKEN cfg = [] then (False, [])
      else (case greenapi_request cfg world chat_id msg of
              Inl e \<Rightarrow> (False, [Post (greenapi_url cfg) chat_id msg])
            | Inr b \<Rightarrow> (b, [Post (greenapi_url cfg) chat_id msg])))"

section \<open>picklebot_webhook\<close>

text \<open>
  The request: its method and what \<open>request.get_json(silent=True)\<close> returns (\<open>None\<close>
  without a JSON body). The response: a body, a status code and, for the preflight, the
  headers.
\<close>

record request =
  http_method :: string
  get_json :: "json option"

datatype response =
    Preflight string nat "(string \<times> string) list"
  | Json json nat

text \<open>
  The first part of the \<open>try\<close> block, up to \<open>process_command\<close>: for the routed form and
  for the gateway form it gives either the response of an early \<open>return\<close> or the command
  text, the sender data and the chat id.
\<close>

definition is_command_loop :: "string list \<Rightarrow> string \<Rightarrow> bool" where
  "is_command_loop prefixes_list text = list_ex (\<lambda>pfx. startswith (py_lower text) (py_lower pfx)) prefixes_list"

definition route :: "config \<Rightarrow> json \<Rightarrow> exn + (response + json \<times> json \<times> json)" where
  "route cfg data =
     (case data of
        JObj kvs \<Rightarrow>
          (case map_of kvs ''command'' of
             Some command_text \<Rightarrow>
               bind_exn (py_get data ''chatId'' (JStr (ADMIN_DINKERS_GROUP_ID cfg))) (\<lambda>chat_id.
               bind_exn (py_get data ''sender'' (JStr [])) (\<lambda>sender.
               bind_exn (py_get data ''senderName'' (JStr [])) (\<lambda>sender_name.
                 let sender_data = JObj [(''chatId'', chat_id), (''sender'', sender),
                                         (''senderName'', sender_name)]
                 in Inr (Inr (command_text, sender_data, chat_id)))))
           | None \<Rightarrow>
               bind_exn (py_get data ''senderData'' (JObj [])) (\<lambda>sender_data.
               bind_exn (py_get data ''messageData'' (JObj [])) (\<lambda>message_data.
               bind_exn (py_get sender_data ''chatId'' (JStr [])) (\<lambda>chat_id.
                 if ADMIN_DINKERS_GROUP_ID cfg \<noteq> [] \<and> chat_id \<noteq> JStr (ADMIN_DINKERS_GROUP_ID cfg)
                 then Inr (Inl (Json (JObj [(''status'', JStr ''ignored''),
                                            (''reason'', JStr ''not_admin_group'')]) 200))
                 else
                   bind_exn (py_get message_data ''typeMessage'' (JStr [])) (\<lambda>type_message.
                     if type_message \<noteq> JStr ''textMessage''
                     then Inr (Inl (Json (JObj [(''status'', JStr ''ignored''),
                                                (''reason'', JStr ''not_text_message'')]) 200))
                     else
                       bind_exn (py_get message_data ''textMessageData'' (JObj [])) (\<lambda>tmd.
                       bind_exn (py_get tmd ''textMessage'' (JStr [])) (\<lambda>text_v.
                       bind_exn (as_str ''lower'' text_v) (\<lambda>text.
                         if \<not> is_command_loop COMMAND_PREFIXES text
                         then Inr (Inl (Json (JObj [(''status'', JStr ''ignored''),
                                                    (''reason'', JStr ''not_command'')]) 200))
                         else Inr (Inr (text_v, sender_data, chat_id))))))))))
      | _ \<Rightarrow> Inl (AttributeError (type_name data) ''get''))"

text \<open>
  The rest of the \<open>try\<close> block: the command is processed, the message is handed to
  \<open>send_whatsapp_message\<close> (whose result is dropped) and the response is built.
\<close>

definition respond :: "config \<Rightarrow> env \<Rightarrow> json \<Rightarrow> result \<Rightarrow> response \<times> post list" where
  "respond cfg world chat_id res =
     (let is_dry_run = dry_run res;
          posts = (if message res \<noteq> []
                   then snd (send_whatsapp_message cfg world
                               (py_or chat_id (JStr (ADMIN_DINKERS_GROUP_ID cfg)))
                               (message res) is_dry_run)
                   else [])
      in (Json (JObj [(''status'', JStr ''processed''),
                      (''intent'', JStr (intent res)),
                      (''needs_confirmation'',
                         JBool (case needs_confirmation res of None \<Rightarrow> False | Some b \<Rightarrow> b)),
                      (''dry_run'', is_dry_run),
                      (''response_message'',
                         if truthy is_dry_run then JStr (message res) else JNull)]) 200,
          posts))"

definition webhook_try :: "config \<Rightarrow> env \<Rightarrow> request \<Rightarrow> exn + response \<times> post list" where
  "webhook_try cfg world req =
     (case get_json req of
        None \<Rightarrow> Inr (Json (JObj [(''error'', JStr ''No JSON payload'')]) 400, [])
      | Some data \<Rightarrow>
          if \<not> truthy data
          then Inr (Json (JObj [(''error'', JStr ''No JSON payload'')]) 400, [])
          else
            bind_exn (py_get data ''dry_run'' (JBool False)) (\<lambda>dry_run_arg.
            bind_exn (route cfg data) (\<lambda>routed.
              case routed of
                Inl early \<Rightarrow> Inr (early, [])
              | Inr (command_text, sender_data, chat_id) \<Rightarrow>
                  bind_exn (process_command cfg world command_text sender_data dry_run_arg)
                    (\<lambda>res. Inr (respond cfg world chat_id res)))))"

definition picklebot_webhook :: "config \<Rightarrow> env \<Rightarrow> request \<Rightarrow> response \<times> post list" where
  "picklebot_webhook cfg world req =
     (if http_method req = ''OPTIONS''
      then (Preflight [] 204
              [(''Access-Control-Allow-Origin'', ''*''),
               (''Access-Control-Allow-Methods'', ''POST''),
               (''Access-Control-Allow-Headers'', ''Content-Type''),
               (''Access-Control-Max-Age'', ''3600'')], [])
      else if http_method req \<noteq> ''POST''
      then (Json (JObj [(''error'', JStr ''Method not allowed'')]) 405, [])
      else (case webhook_try cfg world req of
              Inl e \<Rightarrow> (Json (JObj [(''error'', JStr (str_exn e))]) 500, [])
            | Inr out \<Rightarrow> out))"

section \<open>Example inputs\<close>

text \<open>The player snapshot of the specification's balance examples.\<close>

definition example_players :: "player list" where
  "example_players =
     [\<lparr>name = ''Alice'', balance = 25\<rparr>,
      \<lparr>name = ''Bob'', balance = - 5\<rparr>,
      \<lparr>name = ''Cara'', balance = 0\<rparr>]"

text \<open>
  A deployment without a key for the language-model service (every command is classified
  by the fallback) and with credentials for the messaging gateway.
\<close>

definition offline_config :: config where
  "offline_config =
     \<lparr> GREENAPI_INSTANCE_ID = ''7103'', GREENAPI_API_TOKEN = ''token'',
       ADMIN_DINKERS_GROUP_ID = ''120363@g.us'', ANTHROPIC_API_KEY = [],
       GITHUB_TOKEN = [], SPREADSHEET_ID = ''sheet'' \<rparr>"


text \<open>
  A world in which the language-model service cannot be reached and the messaging gateway
  accepts every message.
\<close>

definition quiet_world :: env where
  "quiet_world =
     \<lparr> claude_reply = (\<lambda>command_text. ConnectionFailed),
       json_loads = (\<lambda>s. None),
       py_repr = (\<lambda>v. []),
       player_balances = example_players,
       timestamp = ''02/04/26 07:00 PM PST'',
       greenapi_reply = (\<lambda>url chat_id msg. Replied 200 None) \<rparr>"






text \<open>Requests: a POST with a JSON body.\<close>

definition post_request :: "json \<Rightarrow> request" where
  "post_request data = \<lparr> http_method = ''POST'', get_json = Some data \<rparr>"

text \<open>
  The preview the fallback classification of \<open>/pb book 2/4 7pm 2hrs\<close> leads to: the text is
  kept as \<open>raw\<close> and every detail has its default.
\<close>

definition book_preview_text :: string where
  "book_preview_text =
     ''*SMAD Picklebot - Book Court*\<newline>\<newline>This action requires confirmation.\<newline>\<newline>*Details:*\<newline>- Date: unknown\<newline>- Time: unknown\<newline>- Duration: 120 minutes\<newline>- Court: both\<newline>\<newline>_Confirmation links coming in Phase 2_''"

section \<open>Reading the classifier's value and the response\<close>

text \<open>
  The intent a classifier's value names: the \<open>intent\<close> entry of the dict,
  \<open>'unknown'\<close> when the dict has none.
\<close>

definition intent_of :: "json \<Rightarrow> json" where
  "intent_of intent_data = (case intent_data of
       JObj kvs \<Rightarrow> (case map_of kvs ''intent'' of None \<Rightarrow> JStr ''unknown'' | Some v \<Rightarrow> v)
     | _ \<Rightarrow> JNull)"

text \<open>The seven intents that have a handler; every other value is treated as unknown.\<close>

definition handled_intents :: "string list" where
  "handled_intents =
     [''help'', ''show_deadbeats'', ''show_balances'', ''show_status'',
      ''book_court'', ''create_poll'', ''send_reminders'']"

text \<open>A field of the JSON body of a response.\<close>

definition response_field :: "response \<Rightarrow> string \<Rightarrow> json option" where
  "response_field r key = (case r of Json (JObj kvs) code \<Rightarrow> map_of kvs key | _ \<Rightarrow> None)"

definition status_code :: "response \<Rightarrow> nat" where
  "status_code r = (case r of Json body code \<Rightarrow> code | Preflight body code headers \<Rightarrow> code)"

text \<open>
  What the routed form of a request (a dict with the key \<open>command\<close>) gives to
  \<open>process_command\<close> and to the delivery: the chat id, with the admin group as default,
  the sender data and the external dry-run override.
\<close>

definition routed_chat_id :: "config \<Rightarrow> (string \<times> json) list \<Rightarrow> json" where
  "routed_chat_id cfg kvs =
     (case map_of kvs ''chatId'' of None \<Rightarrow> JStr (ADMIN_DINKERS_GROUP_ID cfg) | Some c \<Rightarrow> c)"

definition routed_sender_data :: "config \<Rightarrow> (string \<times> json) list \<Rightarrow> json" where
  "routed_sender_data cfg kvs =
     JObj [(''chatId'', routed_chat_id cfg kvs),
           (''sender'', case map_of kvs ''sender'' of None \<Rightarrow> JStr [] | Some s \<Rightarrow> s),
           (''senderName'', case map_of kvs ''senderName'' of None \<Rightarrow> JStr [] | Some s \<Rightarrow> s)]"

definition routed_dry_run :: "(string \<times> json) list \<Rightarrow> json" where
  "routed_dry_run kvs = (case map_of kvs ''dry_run'' of None \<Rightarrow> JBool False | Some d \<Rightarrow> d)"

text \<open>A world like the quiet one whose messaging gateway cannot be reached.\<close>

definition unreachable_gateway_world :: env where
  "unreachable_gateway_world =
     quiet_world \<lparr> greenapi_reply := (\<lambda>url chat_id msg. ConnectionFailed) \<rparr>"

text \<open>The text of the deadbeats handler on the example snapshot.\<close>

definition deadbeats_example_text :: string where
  "deadbeats_example_text =
     ''*SMAD Picklebot - Outstanding Balances*\<newline>\<newline>- Alice: $25.00\<newline>\<newline>*Total: $25.00*''"

section \<open>Properties of the normalizer and of the fallback classifier\<close>










section \<open>Lemmas on the handlers and the dispatch\<close>

lemma foldl_append_nonempty: "m \<noteq> [] \<Longrightarrow> foldl (\<lambda>m p. m @ f p) m ps \<noteq> []"
  by (induction ps arbitrary: m) simp_all

lemma foldl_append_if_nonempty:
  "m \<noteq> [] \<Longrightarrow> foldl (\<lambda>m p. if P p then m @ f p else m) m ps \<noteq> []"
  by (induction ps arbitrary: m) simp_all

lemma handle_help_nonempty: "handle_help \<noteq> []"
  by (simp add: handle_help_def)

lemma handle_deadbeats_nonempty: "handle_deadbeats ps \<noteq> []"
  by (simp add: handle_deadbeats_def Let_def foldl_append_nonempty)

lemma handle_balances_nonempty: "handle_balances ps pn = Inr m \<Longrightarrow> m \<noteq> []"
  unfolding handle_balances_def Let_def bind_exn_def as_str_def
  by (cases pn) (auto simp: foldl_append_nonempty foldl_append_if_nonempty split: if_splits)

lemma handle_status_nonempty: "handle_status cfg world \<noteq> []"
  by (simp add: handle_status_def)

lemma handle_book_court_preview_nonempty:
  "handle_book_court_preview world params = Inr m \<Longrightarrow> m \<noteq> []"
  by (cases params) (auto simp: handle_book_court_preview_def bind_exn_def py_get_def)

lemma handle_create_poll_preview_nonempty: "handle_create_poll_preview \<noteq> []"
  by (simp add: handle_create_poll_preview_def)

lemma handle_send_reminders_preview_nonempty: "handle_send_reminders_preview world t \<noteq> []"
  by (simp add: handle_send_reminders_preview_def)

lemma handle_unknown_nonempty: "handle_unknown world t \<noteq> []"
  by (simp add: handle_unknown_def)

lemma intent_cases:
  obtains "i = JStr ''help''" | "i = JStr ''show_deadbeats''" | "i = JStr ''show_balances''"
    | "i = JStr ''show_status''" | "i = JStr ''book_court''" | "i = JStr ''create_poll''"
    | "i = JStr ''send_reminders''" | "i \<notin> JStr ` set handled_intents"
  unfolding handled_intents_def by auto

lemma build_result_message_nonempty: "m \<noteq> [] \<Longrightarrow> message (build_result d m i n) \<noteq> []"
  by (simp add: build_result_def)

lemma run_handler_message_nonempty:
  assumes "run_handler cfg world c d i params = Inr res"
  shows "message res \<noteq> []"
  using assms
  by (cases i rule: intent_cases)
     (auto simp: run_handler_def bind_exn_def handled_intents_def build_result_message_nonempty
        handle_help_nonempty handle_deadbeats_nonempty handle_status_nonempty
        handle_create_poll_preview_nonempty handle_send_reminders_preview_nonempty
        handle_unknown_nonempty
        dest: handle_balances_nonempty handle_book_court_preview_nonempty
        split: sum.splits)

lemma run_handler_message:
  assumes "run_handler cfg world c d i params = Inr res"
  shows "\<exists>m. run_handler cfg world c (JBool False) i params
            = Inr (build_result (JBool False) m (intent res) (needs_confirmation res))
         \<and> res = build_result d m (intent res) (needs_confirmation res)"
  using assms
  by (cases i rule: intent_cases)
     (auto simp: run_handler_def bind_exn_def build_result_def handled_intents_def
        split: sum.splits)

lemma run_handler_needs_confirmation:
  assumes "run_handler cfg world c d i params = Inr res"
  shows "needs_confirmation res
           = (if i \<in> JStr ` set confirmation_intents then Some True else None)"
  using assms
  by (cases i rule: intent_cases)
     (auto simp: run_handler_def bind_exn_def build_result_def handled_intents_def
        confirmation_intents_def split: sum.splits)

lemma run_handler_intent:
  assumes "run_handler cfg world c d i params = Inr res"
  shows "JStr (intent res) = (if i \<in> JStr ` set handled_intents then i else JStr ''unknown'')"
  using assms
  by (cases i rule: intent_cases)
     (auto simp: run_handler_def bind_exn_def build_result_def handled_intents_def
        split: sum.splits)

lemma run_handler_dry_run:
  assumes "run_handler cfg world c d i params = Inr res"
  shows "dry_run res = d"
  using assms
  by (cases i rule: intent_cases)
     (auto simp: run_handler_def bind_exn_def build_result_def handled_intents_def
        split: sum.splits)

lemma dispatch_JObj:
  "dispatch cfg world c d (JObj kvs) =
     run_handler cfg world c d (intent_of (JObj kvs))
       (case map_of kvs ''params'' of None \<Rightarrow> JObj [] | Some v \<Rightarrow> v)"
  by (simp add: dispatch_def bind_exn_def py_get_def intent_of_def)

lemma dispatch_dict:
  "dispatch cfg world c d idata = Inr res \<Longrightarrow> \<exists>kvs. idata = JObj kvs"
  by (cases idata) (simp_all add: dispatch_def bind_exn_def py_get_def)

lemma dispatch_ignores_flag:
  "dispatch cfg world c d (JObj ((''confirmation_required'', v) # kvs))
     = dispatch cfg world c d (JObj kvs)"
  by (simp add: dispatch_JObj intent_of_def)

lemma process_command_dispatch:
  "process_command cfg world (JStr text) sd dr =
     bind_exn (parse_intent_with_claude cfg world (fst (extract_dry_run_flag text)))
       (dispatch cfg world (fst (extract_dry_run_flag text))
          (py_or dr (JBool (snd (extract_dry_run_flag text)))))"
  by (cases "extract_dry_run_flag text")
     (simp add: process_command_def bind_exn_def as_str_def Let_def)

lemma parse_intent_with_claude_Inr:
  "\<exists>v. parse_intent_with_claude cfg world t = Inr v"
  by (simp add: parse_intent_with_claude_def split: sum.splits)

lemma truthy_py_or_bool: "truthy (py_or a (JBool b)) = (truthy a \<or> b)"
  by (simp add: py_or_def truthy_def)

section \<open>Lemmas on the response\<close>

lemma respond_fields:
  "fst (respond cfg world chat_id res) =
     Json (JObj [(''status'', JStr ''processed''),
                 (''intent'', JStr (intent res)),
                 (''needs_confirmation'',
                    JBool (case needs_confirmation res of None \<Rightarrow> False | Some b \<Rightarrow> b)),
                 (''dry_run'', dry_run res),
                 (''response_message'',
                    if truthy (dry_run res) then JStr (message res) else JNull)]) 200"
  by (simp add: respond_def Let_def)

lemma respond_posts:
  "message res \<noteq> [] \<Longrightarrow>
   snd (respond cfg world chat_id res) =
     (if truthy (dry_run res) \<or> GREENAPI_INSTANCE_ID cfg = [] \<or> GREENAPI_API_TOKEN cfg = []
      then []
      else [Post (greenapi_url cfg) (py_or chat_id (JStr (ADMIN_DINKERS_GROUP_ID cfg)))
              (message res)])"
  by (simp add: respond_def Let_def send_whatsapp_message_def split: sum.splits)

lemma route_routed:
  "map_of kvs ''command'' = Some cmd \<Longrightarrow>
   route cfg (JObj kvs) =
     Inr (Inr (cmd,
       JObj [(''chatId'', case map_of kvs ''chatId'' of
                            None \<Rightarrow> JStr (ADMIN_DINKERS_GROUP_ID cfg) | Some c \<Rightarrow> c),
             (''sender'', case map_of kvs ''sender'' of None \<Rightarrow> JStr [] | Some s \<Rightarrow> s),
             (''senderName'', case map_of kvs ''senderName'' of None \<Rightarrow> JStr [] | Some s \<Rightarrow> s)],
       case map_of kvs ''chatId'' of
         None \<Rightarrow> JStr (ADMIN_DINKERS_GROUP_ID cfg) | Some c \<Rightarrow> c))"
  by (simp add: route_def bind_exn_def py_get_def Let_def)

section \<open>The messaging gateway does not influence the processing\<close>

lemma py_str_gateway: "py_str (world\<lparr>greenapi_reply := g\<rparr>) v = py_str world v"
  by (cases v) (simp_all add: py_str_def)

lemma handle_status_gateway:
  "handle_status cfg (world\<lparr>greenapi_reply := g\<rparr>) = handle_status cfg world"
  by (simp add: handle_status_def)

lemma handle_book_court_preview_gateway:
  "handle_book_court_preview (world\<lparr>greenapi_reply := g\<rparr>) params
     = handle_book_court_preview world params"
  by (simp add: handle_book_court_preview_def py_str_gateway)

lemma handle_send_reminders_preview_gateway:
  "handle_send_reminders_preview (world\<lparr>greenapi_reply := g\<rparr>) t
     = handle_send_reminders_preview world t"
  by (simp add: handle_send_reminders_preview_def py_str_gateway)

lemma handle_unknown_gateway:
  "handle_unknown (world\<lparr>greenapi_reply := g\<rparr>) t = handle_unknown world t"
  by (simp add: handle_unknown_def py_str_gateway)

lemma run_handler_gateway:
  "run_handler cfg (world\<lparr>greenapi_reply := g\<rparr>) c d i params = run_handler cfg world c d i params"
  by (simp add: run_handler_def handle_status_gateway handle_book_court_preview_gateway
        handle_send_reminders_preview_gateway handle_unknown_gateway)

lemma dispatch_gateway:
  "dispatch cfg (world\<lparr>greenapi_reply := g\<rparr>) c d idata = dispatch cfg world c d idata"
  by (simp add: dispatch_def run_handler_gateway)

lemma claude_request_gateway:
  "claude_request (world\<lparr>greenapi_reply := g\<rparr>) t = claude_request world t"
  unfolding claude_request_def Let_def
  by (simp cong: http_reply.case_cong option.case_cong if_cong)

lemma parse_intent_with_claude_gateway:
  "parse_intent_with_claude cfg (world\<lparr>greenapi_reply := g\<rparr>) t
     = parse_intent_with_claude cfg world t"
  by (simp add: parse_intent_with_claude_def claude_request_gateway)

lemma process_command_gateway:
  "process_command cfg (world\<lparr>greenapi_reply := g\<rparr>) cmd sd dr
     = process_command cfg world cmd sd dr"
  by (simp add: process_command_def parse_intent_with_claude_gateway dispatch_gateway)

lemma webhook_try_gateway:
  "map_sum id fst (webhook_try cfg (world\<lparr>greenapi_reply := g\<rparr>) req)
     = map_sum id fst (webhook_try cfg world req)"
  by (simp add: webhook_try_def bind_exn_def process_command_gateway respond_fields
        split: option.splits sum.splits prod.splits)

section \<open>The confirmation flag\<close>

lemma process_command_result:
  assumes c: "parse_intent_with_claude cfg world (fst (extract_dry_run_flag text)) = Inr intent_data"
    and p: "process_command cfg world (JStr text) sender_data dry_run_arg = Inr res"
  obtains kvs where "intent_data = JObj kvs"
    and "run_handler cfg world (fst (extract_dry_run_flag text))
           (py_or dry_run_arg (JBool (snd (extract_dry_run_flag text))))
           (intent_of intent_data)
           (case map_of kvs ''params'' of None \<Rightarrow> JObj [] | Some v \<Rightarrow> v) = Inr res"
proof -
  have d: "dispatch cfg world (fst (extract_dry_run_flag text))
             (py_or dry_run_arg (JBool (snd (extract_dry_run_flag text)))) intent_data = Inr res"
    using p c by (simp add: process_command_dispatch bind_exn_def)
  then obtain kvs where k: "intent_data = JObj kvs"
    using dispatch_dict by blast
  with d that show thesis
    by (simp add: dispatch_JObj)
qed

lemma fallback_book_example:
  "parse_intent_fallback ''/pb book 2/4 7pm 2hrs'' =
     JObj [(''intent'', JStr ''book_court''), (''params'', JObj [(''raw'', JStr ''book 2/4 7pm 2hrs'')]),
           (''confirmation_required'', JBool True)]"
  by code_simp

lemma extract_book_example:
  "extract_dry_run_flag ''/pb book 2/4 7pm 2hrs --dry-run'' = (''/pb book 2/4 7pm 2hrs'', True)"
  by code_simp

lemma extract_book_plain: "extract_dry_run_flag ''/pb book 2/4 7pm 2hrs'' = (''/pb book 2/4 7pm 2hrs'', False)"
  by code_simp

lemma book_court_default_preview:
  "handle_book_court_preview world (JObj [(''raw'', JStr t)]) =
     Inr (''*SMAD Picklebot - Book Court*\<newline>\<newline>This action requires confirmation.\<newline>\<newline>*Details:*\<newline>- Date: unknown\<newline>- Time: unknown\<newline>- Duration: 120 minutes\<newline>- Court: both\<newline>\<newline>_Confirmation links coming in Phase 2_'')"
proof -
  have "show_int 120 = ''120''"
    by code_simp
  then show ?thesis
    by (simp add: handle_book_court_preview_def bind_exn_def py_get_def py_str_def
          PICKLEBOT_SIGNATURE_def)
qed

text \<open>
  C1. The confirmation flag of the result depends on the intent alone. When the
  classifier's value for the cleaned command is \<open>intent_data\<close> and the command is processed
  to a result, the result carries \<open>needs_confirmation = True\<close> exactly when the intent of
  \<open>intent_data\<close> is \<open>book_court\<close>, \<open>create_poll\<close> or \<open>send_reminders\<close>, and the response
  reports that flag; for every other intent the key is absent and the response reports
  false. The \<open>confirmation_required\<close> entry of the classifier's value has no influence on
  the outcome.
\<close>

theorem confirmation_flag_by_intent:
  assumes "parse_intent_with_claude cfg world (fst (extract_dry_run_flag text)) = Inr intent_data"
    and "process_command cfg world (JStr text) sender_data dry_run_arg = Inr res"
  shows "needs_confirmation res
           = (if intent_of intent_data \<in> JStr ` set confirmation_intents then Some True else None)
       \<and> response_field (fst (respond cfg world chat_id res)) ''needs_confirmation''
           = Some (JBool (intent_of intent_data \<in> JStr ` set confirmation_intents))
       \<and> (\<forall>kvs v c d. intent_data = JObj kvs \<longrightarrow>
             dispatch cfg world c d (JObj ((''confirmation_required'', v) # kvs))
               = dispatch cfg world c d intent_data)"
proof -
  from assms obtain kvs where k: "intent_data = JObj kvs"
    and r: "run_handler cfg world (fst (extract_dry_run_flag text))
           (py_or dry_run_arg (JBool (snd (extract_dry_run_flag text))))
           (intent_of intent_data)
           (case map_of kvs ''params'' of None \<Rightarrow> JObj [] | Some v \<Rightarrow> v) = Inr res"
    by (rule process_command_result)
  have n: "needs_confirmation res
           = (if intent_of intent_data \<in> JStr ` set confirmation_intents then Some True else None)"
    using run_handler_needs_confirmation [OF r] .
  have f: "response_field (fst (respond cfg world chat_id res)) ''needs_confirmation''
           = Some (JBool (intent_of intent_data \<in> JStr ` set confirmation_intents))"
    by (simp add: respond_fields response_field_def n)
  have i: "\<forall>kvs v c d. intent_data = JObj kvs \<longrightarrow>
             dispatch cfg world c d (JObj ((''confirmation_required'', v) # kvs))
               = dispatch cfg world c d intent_data"
    by (simp add: dispatch_ignores_flag)
  from n f i show ?thesis
    by blast
qed

theorem confirmation_flag_by_intent_witness:
  "\<exists>res. process_command offline_config quiet_world (JStr ''/pb book 2/4 7pm 2hrs'') JNull (JBool False)
            = Inr res
        \<and> needs_confirmation res = Some True
        \<and> response_field (fst (respond offline_config quiet_world JNull res)) ''needs_confirmation''
            = Some (JBool True)"
proof -
  let ?idata = "parse_intent_fallback ''/pb book 2/4 7pm 2hrs''"
  have c': "parse_intent_with_claude offline_config quiet_world ''/pb book 2/4 7pm 2hrs''
              = Inr ?idata"
    by (simp add: parse_intent_with_claude_def offline_config_def)
  then have c: "parse_intent_with_claude offline_config quiet_world
             (fst (extract_dry_run_flag ''/pb book 2/4 7pm 2hrs'')) = Inr ?idata"
    by (simp add: extract_book_plain)
  have "process_command offline_config quiet_world (JStr ''/pb book 2/4 7pm 2hrs'') JNull (JBool False)
          = Inr (build_result (JBool False)
                   (projr (handle_book_court_preview quiet_world (JObj [(''raw'', JStr ''book 2/4 7pm 2hrs'')])))
                   ''book_court'' (Some True))"
    by (simp add: process_command_dispatch c' extract_book_plain bind_exn_def fallback_book_example
          dispatch_JObj intent_of_def run_handler_def book_court_default_preview py_or_def truthy_def)
  then obtain res where
    p: "process_command offline_config quiet_world (JStr ''/pb book 2/4 7pm 2hrs'') JNull (JBool False)
          = Inr res"
    by blast
  have m: "intent_of ?idata \<in> JStr ` set confirmation_intents"
    by (simp add: fallback_book_example intent_of_def confirmation_intents_def)
  from confirmation_flag_by_intent [OF c p, of JNull] m p show ?thesis
    by auto
qed

section \<open>The dry run\<close>

lemma process_book_fallback:
  assumes "ANTHROPIC_API_KEY cfg = []"
    and "extract_dry_run_flag text = (''/pb book 2/4 7pm 2hrs'', flag)"
  shows "process_command cfg world (JStr text) sd (JBool False)
           = Inr (build_result (JBool flag) book_preview_text ''book_court'' (Some True))"
  using assms
  by (simp add: process_command_dispatch parse_intent_with_claude_def bind_exn_def
        fallback_book_example dispatch_JObj intent_of_def run_handler_def
        book_court_default_preview py_or_def truthy_def book_preview_text_def)

lemma webhook_routed:
  assumes "map_of kvs ''command'' = Some cmd"
  shows "picklebot_webhook cfg world (post_request (JObj kvs)) =
     (let chat_id = (case map_of kvs ''chatId'' of
                       None \<Rightarrow> JStr (ADMIN_DINKERS_GROUP_ID cfg) | Some c \<Rightarrow> c);
          sender_data =
            JObj [(''chatId'', chat_id),
                  (''sender'', case map_of kvs ''sender'' of None \<Rightarrow> JStr [] | Some s \<Rightarrow> s),
                  (''senderName'', case map_of kvs ''senderName'' of None \<Rightarrow> JStr [] | Some s \<Rightarrow> s)];
          dry_run_arg = (case map_of kvs ''dry_run'' of None \<Rightarrow> JBool False | Some d \<Rightarrow> d)
      in case process_command cfg world cmd sender_data dry_run_arg of
           Inl e \<Rightarrow> (Json (JObj [(''error'', JStr (str_exn e))]) 500, [])
         | Inr res \<Rightarrow> respond cfg world chat_id res)"
proof -
  have "kvs \<noteq> []"
    using assms by auto
  then show ?thesis
    using assms
    by (simp add: picklebot_webhook_def post_request_def webhook_try_def truthy_def
          bind_exn_def py_get_def route_routed Let_def split: sum.splits)
qed

text \<open>
  C2. The effective dry-run flag of a processed command is the external override or, when
  that is false, the flag found in the text. The handler's message is the one the same
  classification gives without a dry run, behind the marker \<open>[DRY RUN]\<close> when the flag
  is true. In a dry run no request goes to the messaging gateway and the response carries
  the message in \<open>response_message\<close>; otherwise \<open>response_message\<close> is null and the
  message is handed to the gateway (one request to the chat, or to the admin group when
  the chat id is empty, provided the gateway's credentials are configured). In particular
  the command \<open>/pb book 2/4 7pm 2hrs --dry-run\<close>, classified by the fallback, is answered
  with intent \<open>book_court\<close>, \<open>needs_confirmation\<close> true and \<open>dry_run\<close> true, and with any
  classifier no request is sent for it.
\<close>

theorem dry_run_effect:
  "(process_command cfg world (JStr text) sender_data dry_run_arg = Inr res \<longrightarrow>
      dry_run res = py_or dry_run_arg (JBool (snd (extract_dry_run_flag text)))
    \<and> truthy (dry_run res) = (truthy dry_run_arg \<or> snd (extract_dry_run_flag text))
    \<and> response_field (fst (respond cfg world chat_id res)) ''dry_run'' = Some (dry_run res)
    \<and> (\<exists>intent_data plain.
          parse_intent_with_claude cfg world (fst (extract_dry_run_flag text)) = Inr intent_data
        \<and> dispatch cfg world (fst (extract_dry_run_flag text)) (JBool False) intent_data = Inr plain
        \<and> message res = (if truthy (dry_run res) then ''[DRY RUN]\<newline>\<newline>'' @ message plain
                          else message plain))
    \<and> (truthy (dry_run res) \<longrightarrow>
          snd (respond cfg world chat_id res) = []
        \<and> response_field (fst (respond cfg world chat_id res)) ''response_message''
            = Some (JStr (message res)))
    \<and> (\<not> truthy (dry_run res) \<longrightarrow>
          response_field (fst (respond cfg world chat_id res)) ''response_message'' = Some JNull
        \<and> snd (respond cfg world chat_id res)
            = (if GREENAPI_INSTANCE_ID cfg = [] \<or> GREENAPI_API_TOKEN cfg = [] then []
               else [Post (greenapi_url cfg) (py_or chat_id (JStr (ADMIN_DINKERS_GROUP_ID cfg)))
                       (message res)])))
   \<and> (ANTHROPIC_API_KEY cfg' = [] \<longrightarrow>
        picklebot_webhook cfg' world'
          (post_request (JObj [(''command'', JStr ''/pb book 2/4 7pm 2hrs --dry-run'')]))
        = (Json (JObj [(''status'', JStr ''processed''),
                       (''intent'', JStr ''book_court''),
                       (''needs_confirmation'', JBool True),
                       (''dry_run'', JBool True),
                       (''response_message'', JStr (''[DRY RUN]\<newline>\<newline>'' @ book_preview_text))]) 200,
           []))
   \<and> snd (picklebot_webhook cfg'' world''
             (post_request (JObj [(''command'', JStr ''/pb book 2/4 7pm 2hrs --dry-run'')]))) = []"
proof (intro conjI impI)
  assume p: "process_command cfg world (JStr text) sender_data dry_run_arg = Inr res"
  obtain intent_data where c:
    "parse_intent_with_claude cfg world (fst (extract_dry_run_flag text)) = Inr intent_data"
    using parse_intent_with_claude_Inr by blast
  from c p obtain kvs where k: "intent_data = JObj kvs"
    and r: "run_handler cfg world (fst (extract_dry_run_flag text))
           (py_or dry_run_arg (JBool (snd (extract_dry_run_flag text))))
           (intent_of intent_data)
           (case map_of kvs ''params'' of None \<Rightarrow> JObj [] | Some v \<Rightarrow> v) = Inr res"
    by (rule process_command_result)
  show d: "dry_run res = py_or dry_run_arg (JBool (snd (extract_dry_run_flag text)))"
    using run_handler_dry_run [OF r] .
  show "truthy (dry_run res) = (truthy dry_run_arg \<or> snd (extract_dry_run_flag text))"
    by (simp add: d truthy_py_or_bool)
  show "response_field (fst (respond cfg world chat_id res)) ''dry_run'' = Some (dry_run res)"
    by (simp add: respond_fields response_field_def)
  from run_handler_message [OF r] obtain m where
    m0: "run_handler cfg world (fst (extract_dry_run_flag text)) (JBool False)
           (intent_of intent_data)
           (case map_of kvs ''params'' of None \<Rightarrow> JObj [] | Some v \<Rightarrow> v)
         = Inr (build_result (JBool False) m (intent res) (needs_confirmation res))"
    and m1: "res = build_result (py_or dry_run_arg (JBool (snd (extract_dry_run_flag text)))) m
               (intent res) (needs_confirmation res)"
    by blast
  have "message res = (if truthy (dry_run res) then ''[DRY RUN]\<newline>\<newline>'' @ m else m)"
    by (subst m1) (simp add: build_result_def d)
  moreover have "message (build_result (JBool False) m (intent res) (needs_confirmation res)) = m"
    by (simp add: build_result_def truthy_def)
  moreover have "dispatch cfg world (fst (extract_dry_run_flag text)) (JBool False) intent_data
          = Inr (build_result (JBool False) m (intent res) (needs_confirmation res))"
    using m0 by (simp add: k dispatch_JObj)
  ultimately show "\<exists>intent_data plain.
          parse_intent_with_claude cfg world (fst (extract_dry_run_flag text)) = Inr intent_data
        \<and> dispatch cfg world (fst (extract_dry_run_flag text)) (JBool False) intent_data = Inr plain
        \<and> message res = (if truthy (dry_run res) then ''[DRY RUN]\<newline>\<newline>'' @ message plain
                          else message plain)"
    using c by metis
  have ne: "message res \<noteq> []"
    using run_handler_message_nonempty [OF r] .
  {
    assume t: "truthy (dry_run res)"
    show "snd (respond cfg world chat_id res) = []"
      by (simp add: respond_posts [OF ne] t)
    show "response_field (fst (respond cfg world chat_id res)) ''response_message''
            = Some (JStr (message res))"
      by (simp add: respond_fields response_field_def t)
  }
  {
    assume t: "\<not> truthy (dry_run res)"
    show "response_field (fst (respond cfg world chat_id res)) ''response_message'' = Some JNull"
      by (simp add: respond_fields response_field_def t)
    show "snd (respond cfg world chat_id res)
            = (if GREENAPI_INSTANCE_ID cfg = [] \<or> GREENAPI_API_TOKEN cfg = [] then []
               else [Post (greenapi_url cfg) (py_or chat_id (JStr (ADMIN_DINKERS_GROUP_ID cfg)))
                       (message res)])"
      by (simp add: respond_posts [OF ne] t)
  }
next
  assume key: "ANTHROPIC_API_KEY cfg' = []"
  have m: "map_of [(''command'', JStr ''/pb book 2/4 7pm 2hrs --dry-run'')] ''command''
             = Some (JStr ''/pb book 2/4 7pm 2hrs --dry-run'')"
    by simp
  have ne: "message (build_result (JBool True) book_preview_text ''book_court'' (Some True)) \<noteq> []"
    by (simp add: build_result_def truthy_def)
  show "picklebot_webhook cfg' world'
          (post_request (JObj [(''command'', JStr ''/pb book 2/4 7pm 2hrs --dry-run'')]))
        = (Json (JObj [(''status'', JStr ''processed''),
                       (''intent'', JStr ''book_court''),
                       (''needs_confirmation'', JBool True),
                       (''dry_run'', JBool True),
                       (''response_message'', JStr (''[DRY RUN]\<newline>\<newline>'' @ book_preview_text))]) 200,
           [])"
    unfolding webhook_routed [OF m] Let_def
    by (simp add: process_book_fallback [OF key extract_book_example] prod_eq_iff
          respond_fields respond_posts [OF ne])
       (simp add: build_result_def truthy_def)
next
  let ?cmd = "''/pb book 2/4 7pm 2hrs --dry-run''"
  have m: "map_of [(''command'', JStr ?cmd)] ''command'' = Some (JStr ?cmd)"
    by simp
  show "snd (picklebot_webhook cfg'' world'' (post_request (JObj [(''command'', JStr ?cmd)]))) = []"
  proof (cases "process_command cfg'' world'' (JStr ?cmd)
                  (JObj [(''chatId'', JStr (ADMIN_DINKERS_GROUP_ID cfg'')),
                         (''sender'', JStr []), (''senderName'', JStr [])]) (JBool False)")
    case (Inl e)
    then show ?thesis
      unfolding webhook_routed [OF m] Let_def by simp
  next
    case (Inr res)
    obtain intent_data where c:
      "parse_intent_with_claude cfg'' world'' (fst (extract_dry_run_flag ?cmd)) = Inr intent_data"
      using parse_intent_with_claude_Inr by blast
    from c Inr obtain kvs where
      r: "run_handler cfg'' world'' (fst (extract_dry_run_flag ?cmd))
           (py_or (JBool False) (JBool (snd (extract_dry_run_flag ?cmd))))
           (intent_of intent_data)
           (case map_of kvs ''params'' of None \<Rightarrow> JObj [] | Some v \<Rightarrow> v) = Inr res"
      by (rule process_command_result)
    have "truthy (dry_run res)"
      using run_handler_dry_run [OF r] by (simp add: extract_book_example py_or_def truthy_def)
    then show ?thesis
      unfolding webhook_routed [OF m] Let_def
      using Inr run_handler_message_nonempty [OF r] by (simp add: respond_posts)
  qed
qed

theorem dry_run_effect_witness:
  "process_command offline_config quiet_world (JStr ''/pb book 2/4 7pm 2hrs --dry-run'') JNull
       (JBool False)
     = Inr (build_result (JBool True) book_preview_text ''book_court'' (Some True))
   \<and> snd (respond offline_config quiet_world JNull
            (build_result (JBool True) book_preview_text ''book_court'' (Some True))) = []
   \<and> process_command offline_config quiet_world (JStr ''/pb book 2/4 7pm 2hrs'') JNull (JBool False)
     = Inr (build_result (JBool False) book_preview_text ''book_court'' (Some True))
   \<and> snd (respond offline_config quiet_world JNull
            (build_result (JBool False) book_preview_text ''book_court'' (Some True)))
     = [Post ''https://api.green-api.com/waInstance7103/sendMessage/token''
          (JStr ''120363@g.us'') book_preview_text]
   \<and> fst (picklebot_webhook offline_config quiet_world
            (post_request (JObj [(''command'', JStr ''/pb book 2/4 7pm 2hrs --dry-run'')])))
     = Json (JObj [(''status'', JStr ''processed''),
                   (''intent'', JStr ''book_court''),
                   (''needs_confirmation'', JBool True),
                   (''dry_run'', JBool True),
                   (''response_message'', JStr (''[DRY RUN]\<newline>\<newline>'' @ book_preview_text))]) 200"
proof -
  have key: "ANTHROPIC_API_KEY offline_config = []"
    by (simp add: offline_config_def)
  have creds: "GREENAPI_INSTANCE_ID offline_config = ''7103''"
    "GREENAPI_API_TOKEN offline_config = ''token''"
    "ADMIN_DINKERS_GROUP_ID offline_config = ''120363@g.us''"
    by (simp_all add: offline_config_def)
  let ?dry = "build_result (JBool True) book_preview_text ''book_court'' (Some True)"
  let ?plain = "build_result (JBool False) book_preview_text ''book_court'' (Some True)"
  have p1: "process_command offline_config quiet_world (JStr ''/pb book 2/4 7pm 2hrs --dry-run'')
              JNull (JBool False) = Inr ?dry"
    by (rule process_book_fallback [OF key extract_book_example])
  have p2: "process_command offline_config quiet_world (JStr ''/pb book 2/4 7pm 2hrs'')
              JNull (JBool False) = Inr ?plain"
    by (rule process_book_fallback [OF key extract_book_plain])
  have t1: "truthy (dry_run ?dry)" and t2: "\<not> truthy (dry_run ?plain)"
    and m2: "message ?plain = book_preview_text"
    by (simp_all add: build_result_def truthy_def)
  have u: "greenapi_url offline_config = ''https://api.green-api.com/waInstance7103/sendMessage/token''"
    by (simp add: greenapi_url_def creds)
  have a: "py_or JNull (JStr ''120363@g.us'') = JStr ''120363@g.us''"
    by (simp add: py_or_def truthy_def)
  note w1 = dry_run_effect [where cfg = offline_config and world = quiet_world
      and ?text = "''/pb book 2/4 7pm 2hrs --dry-run''" and sender_data = JNull
      and dry_run_arg = "JBool False" and res = "?dry" and chat_id = JNull
      and cfg' = offline_config and world' = quiet_world]
  note w2 = dry_run_effect [where cfg = offline_config and world = quiet_world
      and ?text = "''/pb book 2/4 7pm 2hrs''" and sender_data = JNull
      and dry_run_arg = "JBool False" and res = "?plain" and chat_id = JNull]
  have "snd (respond offline_config quiet_world JNull ?dry) = []"
    using w1 p1 t1 by blast
  moreover have "snd (respond offline_config quiet_world JNull ?plain)
     = [Post ''https://api.green-api.com/waInstance7103/sendMessage/token''
          (JStr ''120363@g.us'') book_preview_text]"
  proof -
    have "snd (respond offline_config quiet_world JNull ?plain)
            = (if GREENAPI_INSTANCE_ID offline_config = [] \<or> GREENAPI_API_TOKEN offline_config = []
               then []
               else [Post (greenapi_url offline_config)
                       (py_or JNull (JStr (ADMIN_DINKERS_GROUP_ID offline_config)))
                       (message ?plain)])"
      using w2 p2 t2 by blast
    then show ?thesis
      by (simp add: creds u a m2)
  qed
  moreover have "fst (picklebot_webhook offline_config quiet_world
            (post_request (JObj [(''command'', JStr ''/pb book 2/4 7pm 2hrs --dry-run'')])))
     = Json (JObj [(''status'', JStr ''processed''),
                   (''intent'', JStr ''book_court''),
                   (''needs_confirmation'', JBool True),
                   (''dry_run'', JBool True),
                   (''response_message'', JStr (''[DRY RUN]\<newline>\<newline>'' @ book_preview_text))]) 200"
    using w1 key by simp
  ultimately show ?thesis
    using p1 p2 by blast
qed

section \<open>The classifier never raises\<close>









section \<open>The balance examples\<close>

lemma handle_deadbeats_example:
  "handle_deadbeats example_players =
     ''*SMAD Picklebot - Outstanding Balances*\<newline>\<newline>- Alice: $25.00\<newline>\<newline>*Total: $25.00*''"
  by code_simp

lemma handle_balances_all_example:
  "handle_balances example_players JNull =
     Inr ''*SMAD Picklebot - All Balances*\<newline>\<newline>- Alice: $25.00\<newline>- Bob: $-5.00\<newline>\<newline>*Total Outstanding: $25.00*''"
  by code_simp

lemma handle_balances_filter_example:
  "handle_balances example_players (JStr ''ali'') =
     Inr ''*SMAD Picklebot*\<newline>\<newline>Alice owes $25.00''"
  by code_simp

text \<open>
  C8. On the snapshot Alice 25.00, Bob -5.00, Cara 0.00 the deadbeats handler lists only
  Alice, with the total $25.00; the balances handler without a name lists Alice and then
  Bob, not Cara, with the total $25.00 of the positive balances; with the name \<open>ali\<close> it
  finds Alice and says \<open>Alice owes $25.00\<close>.
\<close>

theorem balance_rendering_example:
  "handle_deadbeats example_players =
     ''*SMAD Picklebot - Outstanding Balances*\<newline>\<newline>- Alice: $25.00\<newline>\<newline>*Total: $25.00*''
   \<and> handle_balances example_players JNull =
     Inr ''*SMAD Picklebot - All Balances*\<newline>\<newline>- Alice: $25.00\<newline>- Bob: $-5.00\<newline>\<newline>*Total Outstanding: $25.00*''
   \<and> handle_balances example_players (JStr ''ali'') =
     Inr ''*SMAD Picklebot*\<newline>\<newline>Alice owes $25.00''"
  by (rule conjI [OF handle_deadbeats_example
        conjI [OF handle_balances_all_example handle_balances_filter_example]])

section \<open>The HTTP entry point\<close>

lemma process_command_sender:
  "process_command cfg world cmd sd dr = process_command cfg world cmd sd' dr"
  by (simp add: process_command_def)

lemma send_whatsapp_message_posts:
  "p \<in> set (snd (send_whatsapp_message cfg world chat_id msg d)) \<Longrightarrow>
   p = Post (greenapi_url cfg) chat_id msg"
  by (auto simp: send_whatsapp_message_def split: if_splits sum.splits)

lemma respond_posts_target:
  "p \<in> set (snd (respond cfg world chat_id res)) \<Longrightarrow>
   p = Post (greenapi_url cfg) (py_or chat_id (JStr (ADMIN_DINKERS_GROUP_ID cfg))) (message res)"
  by (auto simp: respond_def Let_def split: if_splits dest: send_whatsapp_message_posts)

lemma process_deadbeats_fallback:
  "process_command offline_config quiet_world (JStr ''deadbeats'') sd (JBool False)
     = Inr (build_result (JBool False) deadbeats_example_text ''show_deadbeats'' None)"
proof -
  have e: "extract_dry_run_flag ''deadbeats'' = (''deadbeats'', False)"
    by code_simp
  have f: "parse_intent_fallback ''deadbeats'' =
     JObj [(''intent'', JStr ''show_deadbeats''), (''params'', JObj []),
           (''confirmation_required'', JBool False)]"
    by code_simp
  have k: "ANTHROPIC_API_KEY offline_config = []"
    by (simp add: offline_config_def)
  have w: "player_balances quiet_world = example_players"
    by (simp add: quiet_world_def)
  show ?thesis
    by (simp add: process_command_dispatch e parse_intent_with_claude_def k bind_exn_def f
          dispatch_JObj intent_of_def run_handler_def w handle_deadbeats_example
          deadbeats_example_text_def py_or_def truthy_def)
qed

text \<open>
  C7, as the specification states it, fails: the body of the 500 response is not a generic
  message. It is the text of the exception, which names the type and the attribute the
  interpreter failed on; two requests that fail differently get different bodies.
\<close>

theorem exception_text_in_response:
  "fst (picklebot_webhook offline_config quiet_world (post_request (JObj [(''command'', JInt 5)])))
     = Json (JObj [(''error'',
         JStr ([CHR 0x27] @ ''int'' @ [CHR 0x27] @ '' object has no attribute ''
               @ [CHR 0x27] @ ''lower'' @ [CHR 0x27]))]) 500
   \<and> fst (picklebot_webhook offline_config quiet_world (post_request (JArr [JInt 1])))
     = Json (JObj [(''error'',
         JStr ([CHR 0x27] @ ''list'' @ [CHR 0x27] @ '' object has no attribute ''
               @ [CHR 0x27] @ ''get'' @ [CHR 0x27]))]) 500"
  by code_simp

text \<open>
  C7, amended. An exception that no inner path handles is caught at the top level of the
  entry point and answered with status 500, no message being sent; the body is
  \<open>{error: str(e)}\<close>, the text of the exception itself.
\<close>

theorem unhandled_exception_response:
  assumes "http_method req = ''POST''"
    and "webhook_try cfg world req = Inl e"
  shows "picklebot_webhook cfg world req = (Json (JObj [(''error'', JStr (str_exn e))]) 500, [])"
  using assms by (simp add: picklebot_webhook_def)

theorem unhandled_exception_response_witness:
  "http_method (post_request (JArr [JInt 1])) = ''POST''
   \<and> webhook_try offline_config quiet_world (post_request (JArr [JInt 1]))
       = Inl (AttributeError ''list'' ''get'')
   \<and> picklebot_webhook offline_config quiet_world (post_request (JArr [JInt 1]))
       = (Json (JObj [(''error'', JStr (str_exn (AttributeError ''list'' ''get'')))]) 500, [])"
proof -
  have m: "http_method (post_request (JArr [JInt 1])) = ''POST''"
    by (simp add: post_request_def)
  have t: "webhook_try offline_config quiet_world (post_request (JArr [JInt 1]))
       = Inl (AttributeError ''list'' ''get'')"
    by (simp add: webhook_try_def post_request_def truthy_def py_get_def bind_exn_def type_name_def)
  from unhandled_exception_response [OF m t] m t show ?thesis
    by simp
qed

text \<open>
  C9. A request of the routed form, a dict with the key \<open>command\<close>, passes no gate: whatever
  its chat id, its sender and its command text, the command is processed, and the outcome
  of the request is the outcome of \<open>process_command\<close> (the response built from its result,
  or status 500 for an exception), never an \<open>ignored\<close> response. The sender data do not
  influence the processing. When the request has no \<open>chatId\<close>, every message sent goes to
  the configured admin group.
\<close>

theorem routed_form_ungated:
  assumes "map_of kvs ''command'' = Some cmd"
  shows "picklebot_webhook cfg world (post_request (JObj kvs)) =
           (case process_command cfg world cmd (routed_sender_data cfg kvs) (routed_dry_run kvs) of
              Inl e \<Rightarrow> (Json (JObj [(''error'', JStr (str_exn e))]) 500, [])
            | Inr res \<Rightarrow> respond cfg world (routed_chat_id cfg kvs) res)
       \<and> response_field (fst (picklebot_webhook cfg world (post_request (JObj kvs)))) ''status''
           \<noteq> Some (JStr ''ignored'')
       \<and> process_command cfg world cmd (routed_sender_data cfg kvs) (routed_dry_run kvs)
           = process_command cfg world cmd sender_data (routed_dry_run kvs)
       \<and> (map_of kvs ''chatId'' = None \<longrightarrow>
            (\<forall>p \<in> set (snd (picklebot_webhook cfg world (post_request (JObj kvs)))).
               \<exists>msg. p = Post (greenapi_url cfg) (JStr (ADMIN_DINKERS_GROUP_ID cfg)) msg))"
proof -
  have w: "picklebot_webhook cfg world (post_request (JObj kvs)) =
           (case process_command cfg world cmd (routed_sender_data cfg kvs) (routed_dry_run kvs) of
              Inl e \<Rightarrow> (Json (JObj [(''error'', JStr (str_exn e))]) 500, [])
            | Inr res \<Rightarrow> respond cfg world (routed_chat_id cfg kvs) res)"
    unfolding webhook_routed [OF assms] Let_def routed_sender_data_def routed_dry_run_def
      routed_chat_id_def
    by (rule refl)
  have s: "response_field (fst (picklebot_webhook cfg world (post_request (JObj kvs)))) ''status''
           \<noteq> Some (JStr ''ignored'')"
    unfolding w by (simp add: response_field_def respond_fields split: sum.splits)
  have a: "map_of kvs ''chatId'' = None \<longrightarrow>
            (\<forall>p \<in> set (snd (picklebot_webhook cfg world (post_request (JObj kvs)))).
               \<exists>msg. p = Post (greenapi_url cfg) (JStr (ADMIN_DINKERS_GROUP_ID cfg)) msg)"
  proof (intro impI ballI)
    fix p
    assume n: "map_of kvs ''chatId'' = None"
      and p: "p \<in> set (snd (picklebot_webhook cfg world (post_request (JObj kvs))))"
    have c: "routed_chat_id cfg kvs = JStr (ADMIN_DINKERS_GROUP_ID cfg)"
      by (simp add: routed_chat_id_def n)
    have o: "py_or (JStr (ADMIN_DINKERS_GROUP_ID cfg)) (JStr (ADMIN_DINKERS_GROUP_ID cfg))
               = JStr (ADMIN_DINKERS_GROUP_ID cfg)"
      by (simp add: py_or_def)
    from p show "\<exists>msg. p = Post (greenapi_url cfg) (JStr (ADMIN_DINKERS_GROUP_ID cfg)) msg"
      unfolding w c
      by (cases "process_command cfg world cmd (routed_sender_data cfg kvs) (routed_dry_run kvs)")
         (auto dest!: respond_posts_target simp: o)
  qed
  from w s a process_command_sender show ?thesis
    by blast
qed

theorem routed_form_ungated_witness:
  "map_of [(''command'', JStr ''deadbeats''), (''sender'', JStr ''someone@c.us'')] ''command''
     = Some (JStr ''deadbeats'')
   \<and> map_of [(''command'', JStr ''deadbeats''), (''sender'', JStr ''someone@c.us'')] ''chatId'' = None
   \<and> picklebot_webhook offline_config quiet_world
        (post_request (JObj [(''command'', JStr ''deadbeats''), (''sender'', JStr ''someone@c.us'')]))
      = respond offline_config quiet_world (JStr ''120363@g.us'')
          (build_result (JBool False) deadbeats_example_text ''show_deadbeats'' None)
   \<and> snd (respond offline_config quiet_world (JStr ''120363@g.us'')
             (build_result (JBool False) deadbeats_example_text ''show_deadbeats'' None))
      = [Post ''https://api.green-api.com/waInstance7103/sendMessage/token''
           (JStr ''120363@g.us'') deadbeats_example_text]"
proof -
  let ?kvs = "[(''command'', JStr ''deadbeats''), (''sender'', JStr ''someone@c.us'')]"
  let ?res = "build_result (JBool False) deadbeats_example_text ''show_deadbeats'' None"
  have m: "map_of ?kvs ''command'' = Some (JStr ''deadbeats'')"
    and n: "map_of ?kvs ''chatId'' = None"
    by simp_all
  have d: "routed_dry_run ?kvs = JBool False"
    by (simp add: routed_dry_run_def)
  have c: "routed_chat_id offline_config ?kvs = JStr ''120363@g.us''"
    by (simp add: routed_chat_id_def offline_config_def)
  have w: "picklebot_webhook offline_config quiet_world (post_request (JObj ?kvs))
             = respond offline_config quiet_world (JStr ''120363@g.us'') ?res"
    using routed_form_ungated [OF m, of offline_config quiet_world]
    by (simp add: d c process_deadbeats_fallback)
  have ne: "message ?res \<noteq> []"
    by (simp add: build_result_def truthy_def deadbeats_example_text_def)
  have s: "snd (respond offline_config quiet_world (JStr ''120363@g.us'') ?res)
      = [Post ''https://api.green-api.com/waInstance7103/sendMessage/token''
           (JStr ''120363@g.us'') deadbeats_example_text]"
    by (simp add: respond_posts [OF ne])
       (simp add: build_result_def truthy_def offline_config_def greenapi_url_def py_or_def)
  from m n w s show ?thesis
    by blast
qed

text \<open>
  C10. The delivery cannot change the HTTP result. \<open>send_whatsapp_message\<close> returns a
  boolean in every case: true in a dry run, false without credentials, false when the
  request fails and otherwise whether the status was 200. The response of the entry point
  is the same whatever the messaging gateway answers, and the response built for a
  processed command has status 200 and \<open>status = processed\<close> for every configuration,
  with or without credentials.
\<close>

theorem delivery_failure_invisible:
  "fst (picklebot_webhook cfg (world\<lparr>greenapi_reply := g\<rparr>) req) = fst (picklebot_webhook cfg world req)
   \<and> fst (respond cfg' world' chat_id' res) = fst (respond cfg world chat_id res)
   \<and> status_code (fst (respond cfg world chat_id res)) = 200
   \<and> response_field (fst (respond cfg world chat_id res)) ''status'' = Some (JStr ''processed'')
   \<and> fst (send_whatsapp_message cfg world chat_id msg d)
       = (if truthy d then True
          else if GREENAPI_INSTANCE_ID cfg = [] \<or> GREENAPI_API_TOKEN cfg = [] then False
          else (case greenapi_reply world (greenapi_url cfg) chat_id msg of
                  ConnectionFailed \<Rightarrow> False
                | Replied code body \<Rightarrow> code = 200))"
proof (intro conjI)
  have "map_sum id fst (webhook_try cfg (world\<lparr>greenapi_reply := g\<rparr>) req)
          = map_sum id fst (webhook_try cfg world req)"
    by (rule webhook_try_gateway)
  then show "fst (picklebot_webhook cfg (world\<lparr>greenapi_reply := g\<rparr>) req)
               = fst (picklebot_webhook cfg world req)"
    by (cases "webhook_try cfg (world\<lparr>greenapi_reply := g\<rparr>) req";
        cases "webhook_try cfg world req")
       (simp_all add: picklebot_webhook_def)
  show "fst (respond cfg' world' chat_id' res) = fst (respond cfg world chat_id res)"
    by (simp add: respond_fields)
  show "status_code (fst (respond cfg world chat_id res)) = 200"
    by (simp add: respond_fields status_code_def)
  show "response_field (fst (respond cfg world chat_id res)) ''status'' = Some (JStr ''processed'')"
    by (simp add: respond_fields response_field_def)
  show "fst (send_whatsapp_message cfg world chat_id msg d)
       = (if truthy d then True
          else if GREENAPI_INSTANCE_ID cfg = [] \<or> GREENAPI_API_TOKEN cfg = [] then False
          else (case greenapi_reply world (greenapi_url cfg) chat_id msg of
                  ConnectionFailed \<Rightarrow> False
                | Replied code body \<Rightarrow> code = 200))"
    by (simp add: send_whatsapp_message_def greenapi_request_def
          split: http_reply.splits sum.splits)
qed

theorem delivery_failure_invisible_witness:
  "fst (picklebot_webhook offline_config unreachable_gateway_world
          (post_request (JObj [(''command'', JStr ''deadbeats'')])))
     = Json (JObj [(''status'', JStr ''processed''),
                   (''intent'', JStr ''show_deadbeats''),
                   (''needs_confirmation'', JBool False),
                   (''dry_run'', JBool False),
                   (''response_message'', JNull)]) 200
   \<and> fst (send_whatsapp_message offline_config unreachable_gateway_world (JStr ''120363@g.us'')
            deadbeats_example_text (JBool False)) = False"
proof -
  let ?req = "post_request (JObj [(''command'', JStr ''deadbeats'')])"
  let ?res = "build_result (JBool False) deadbeats_example_text ''show_deadbeats'' None"
  have m: "map_of [(''command'', JStr ''deadbeats'')] ''command'' = Some (JStr ''deadbeats'')"
    by simp
  have q: "picklebot_webhook offline_config quiet_world ?req
             = respond offline_config quiet_world (JStr ''120363@g.us'') ?res"
    unfolding webhook_routed [OF m] Let_def
    by (simp add: process_deadbeats_fallback) (simp add: offline_config_def)
  have r: "fst (respond offline_config quiet_world (JStr ''120363@g.us'') ?res)
     = Json (JObj [(''status'', JStr ''processed''),
                   (''intent'', JStr ''show_deadbeats''),
                   (''needs_confirmation'', JBool False),
                   (''dry_run'', JBool False),
                   (''response_message'', JNull)]) 200"
    by (simp add: respond_fields) (simp add: build_result_def truthy_def)
  note t = delivery_failure_invisible [where cfg = offline_config and world = quiet_world
      and g = "\<lambda>url chat_id msg. ConnectionFailed" and req = "?req"]
  note u = delivery_failure_invisible [where cfg = offline_config
      and world = unreachable_gateway_world and chat_id = "JStr ''120363@g.us''"
      and msg = deadbeats_example_text and d = "JBool False"]
  have a: "fst (picklebot_webhook offline_config unreachable_gateway_world ?req)
             = fst (picklebot_webhook offline_config quiet_world ?req)"
    using t unfolding unreachable_gateway_world_def by blast
  have b: "fst (send_whatsapp_message offline_config unreachable_gateway_world (JStr ''120363@g.us'')
            deadbeats_example_text (JBool False)) = False"
    using u by (simp add: truthy_def offline_config_def unreachable_gateway_world_def)
  from a b q r show ?thesis
    by simp
qed

end
